theory Spec2Isabelle
  imports Complex_Main
begin

section \<open>Values, exceptions and results\<close>

text \<open>
  The meters of \<^verbatim>\<open>custom_components/measureit/meter.py\<close> compute with Python's
  \<^verbatim>\<open>Decimal\<close>. A finite decimal is a rational number and sums and differences of
  decimals are decimals again, so a \<^verbatim>\<open>Decimal\<close> is modelled as a rational with exact
  \<open>+\<close> and \<open>-\<close>. The special values (NaN, the infinities, the signed zero) and
  the rounding of the arithmetic context to 28 significant digits are outside the model.
  The scenarios below compute with small integers, on which the arithmetic of the code
  is exact. The general statements about \<^verbatim>\<open>stop\<close>, \<^verbatim>\<open>update\<close>, \<^verbatim>\<open>reset\<close> and
  the snapshots relate one operation of the code to another, say which fields a call
  leaves as they were, or compare a field with what the code's own sum gives: none
  depends on what a sum or a difference evaluates to. The lemmas that do rest on exact
  arithmetic say so.
\<close>

type_synonym decimal = rat

text \<open>
  The exceptions the meter code can raise: \<^verbatim>\<open>TypeError\<close> from arithmetic on
  \<^verbatim>\<open>None\<close> and from \<^verbatim>\<open>Decimal(None)\<close>, \<^verbatim>\<open>KeyError\<close> from a snapshot that lacks a key.
\<close>

datatype error = TypeError | KeyError

text \<open>
  A method mutates its object in place, and the assignments made before an exception
  stay. So the outcome of a call holds the object's state in both cases.
\<close>

datatype 'a result = Returned 'a | Raised error 'a

fun state_of :: "'a result \<Rightarrow> 'a" where
  "state_of (Returned s) = s"
| "state_of (Raised e s) = s"

fun returns :: "'a result \<Rightarrow> bool" where
  "returns (Returned s) = True"
| "returns (Raised e s) = False"

text \<open>Sequencing of statements: an exception skips what follows.\<close>

fun and_then :: "'a result \<Rightarrow> ('a \<Rightarrow> 'a result) \<Rightarrow> 'a result" where
  "and_then (Returned s) f = f s"
| "and_then (Raised e s) f = Raised e s"

text \<open>
  \<open>py_sub a b\<close> is \<^verbatim>\<open>a - b\<close> and \<open>py_add a b\<close> is \<^verbatim>\<open>a + b\<close> where an operand
  may be \<^verbatim>\<open>None\<close>: \<^verbatim>\<open>Decimal\<close> arithmetic with \<^verbatim>\<open>None\<close> on either side raises
  \<^verbatim>\<open>TypeError\<close>.
\<close>

fun py_sub :: "decimal option \<Rightarrow> decimal option \<Rightarrow> error + decimal" where
  "py_sub (Some a) (Some b) = Inr (a - b)"
| "py_sub _ _ = Inl TypeError"

fun py_add :: "decimal option \<Rightarrow> decimal option \<Rightarrow> error + decimal" where
  "py_add (Some a) (Some b) = Inr (a + b)"
| "py_add _ _ = Inl TypeError"

text \<open>
  The values a snapshot holds: \<^verbatim>\<open>to_dict\<close> stores \<^verbatim>\<open>Decimal\<close> objects, a
  \<^verbatim>\<open>bool\<close> and, for an unknown source reading, \<^verbatim>\<open>None\<close>. \<open>Decimal v\<close> is the
  constructor call \<^verbatim>\<open>Decimal(v)\<close> (a \<^verbatim>\<open>bool\<close> is an \<^verbatim>\<open>int\<close>), \<open>truthy\<close> is
  Python's truth value, used by \<^verbatim>\<open>bool(v)\<close> and by \<^verbatim>\<open>if v:\<close>.
\<close>

datatype pyval = PyNone | PyBool bool | PyDecimal decimal

type_synonym snapshot = "string \<rightharpoonup> pyval"

fun Decimal :: "pyval \<Rightarrow> error + decimal" where
  "Decimal (PyDecimal d) = Inr d"
| "Decimal (PyBool b) = Inr (if b then 1 else 0)"
| "Decimal PyNone = Inl TypeError"

fun truthy :: "pyval \<Rightarrow> bool" where
  "truthy PyNone = False"
| "truthy (PyBool b) = b"
| "truthy (PyDecimal d) = (d \<noteq> 0)"

fun of_optional :: "decimal option \<Rightarrow> pyval" where
  "of_optional None = PyNone"
| "of_optional (Some d) = PyDecimal d"

text \<open>
  \<open>assign_decimal data k upd\<close> is the statement \<^verbatim>\<open>self._f = Decimal(data[k])\<close> and
  \<open>assign_bool data k upd\<close> is \<^verbatim>\<open>self._f = bool(data[k])\<close>, where \<open>upd\<close> writes the
  field: a missing key raises \<^verbatim>\<open>KeyError\<close>, a value that is no decimal
  \<^verbatim>\<open>TypeError\<close>, and the field is then not written.
\<close>

definition assign_decimal ::
  "snapshot \<Rightarrow> string \<Rightarrow> (decimal \<Rightarrow> 's \<Rightarrow> 's) \<Rightarrow> 's \<Rightarrow> 's result" where
  "assign_decimal data k upd s =
     (case data k of
        None \<Rightarrow> Raised KeyError s
      | Some v \<Rightarrow> (case Decimal v of Inl e \<Rightarrow> Raised e s | Inr d \<Rightarrow> Returned (upd d s)))"

definition assign_bool ::
  "snapshot \<Rightarrow> string \<Rightarrow> (bool \<Rightarrow> 's \<Rightarrow> 's) \<Rightarrow> 's \<Rightarrow> 's result" where
  "assign_bool data k upd s =
     (case data k of
        None \<Rightarrow> Raised KeyError s
      | Some v \<Rightarrow> Returned (upd (truthy v) s))"

section \<open>The meters\<close>

subsection \<open>MeasureItMeter, the base class\<close>

record MeasureItMeter =
  measured_value :: decimal
  prev_measured_value :: decimal
  measuring :: bool

definition MeasureItMeter_init :: MeasureItMeter where
  "MeasureItMeter_init =
     \<lparr>measured_value = 0, prev_measured_value = 0, measuring = False\<rparr>"

definition MeasureItMeter_to_dict :: "'a MeasureItMeter_scheme \<Rightarrow> snapshot" where
  "MeasureItMeter_to_dict m =
     [''measured_value'' \<mapsto> PyDecimal (measured_value m),
      ''prev_measured_value'' \<mapsto> PyDecimal (prev_measured_value m),
      ''measuring'' \<mapsto> PyBool (measuring m)]"

definition MeasureItMeter_from_dict ::
  "snapshot \<Rightarrow> 'a MeasureItMeter_scheme \<Rightarrow> 'a MeasureItMeter_scheme result" where
  "MeasureItMeter_from_dict data m =
     and_then (and_then
       (assign_decimal data ''measured_value'' (\<lambda>d s. s\<lparr>measured_value := d\<rparr>) m)
       (assign_decimal data ''prev_measured_value'' (\<lambda>d s. s\<lparr>prev_measured_value := d\<rparr>)))
       (assign_bool data ''measuring'' (\<lambda>b s. s\<lparr>measuring := b\<rparr>))"

subsection \<open>CounterMeter\<close>

text \<open>The class adds no field; it inherits \<^verbatim>\<open>to_dict\<close> and \<^verbatim>\<open>from_dict\<close>.\<close>

type_synonym CounterMeter = MeasureItMeter

definition CounterMeter_init :: CounterMeter where
  "CounterMeter_init = MeasureItMeter_init"

definition CounterMeter_start :: "CounterMeter \<Rightarrow> CounterMeter" where
  "CounterMeter_start m = m\<lparr>measuring := True\<rparr>"

definition CounterMeter_stop :: "CounterMeter \<Rightarrow> CounterMeter" where
  "CounterMeter_stop m = m\<lparr>measuring := False\<rparr>"

definition CounterMeter_update :: "decimal option \<Rightarrow> CounterMeter \<Rightarrow> CounterMeter result" where
  "CounterMeter_update v m =
     (if measuring m then
        (case py_add (Some (measured_value m)) v of
           Inl e \<Rightarrow> Raised e m
         | Inr d \<Rightarrow> Returned (m\<lparr>measured_value := d\<rparr>))
      else Returned m)"

definition CounterMeter_reset :: "CounterMeter \<Rightarrow> CounterMeter" where
  "CounterMeter_reset m = m\<lparr>prev_measured_value := measured_value m, measured_value := 0\<rparr>"

definition CounterMeter_to_dict :: "CounterMeter \<Rightarrow> snapshot" where
  "CounterMeter_to_dict = MeasureItMeter_to_dict"

definition CounterMeter_from_dict :: "snapshot \<Rightarrow> CounterMeter \<Rightarrow> CounterMeter result" where
  "CounterMeter_from_dict = MeasureItMeter_from_dict"

subsection \<open>SourceMeter\<close>

text \<open>
  \<^verbatim>\<open>_source_value\<close> is \<^verbatim>\<open>None\<close> while no reading is known, and \<^verbatim>\<open>start\<close> copies
  it into \<^verbatim>\<open>_session_start_value\<close>, so both are optional. The attribute
  \<^verbatim>\<open>_session_total\<close> does not exist before the first computation: \<open>None\<close>.
\<close>

record SourceMeter = MeasureItMeter +
  session_start_value :: "decimal option"
  session_start_measured_value :: decimal
  source_value :: "decimal option"
  session_total :: "decimal option"

definition SourceMeter_init :: "decimal option \<Rightarrow> SourceMeter" where
  "SourceMeter_init sv =
     \<lparr>measured_value = 0, prev_measured_value = 0, measuring = False,
      SourceMeter.session_start_value = Some 0,
      SourceMeter.session_start_measured_value = 0,
      source_value = sv,
      SourceMeter.session_total = None\<rparr>"

definition SourceMeter_start :: "SourceMeter \<Rightarrow> SourceMeter" where
  "SourceMeter_start m =
     (let m1 = m\<lparr>measuring := True\<rparr>;
          m2 = m1\<lparr>SourceMeter.session_start_value := source_value m1\<rparr>
      in m2\<lparr>SourceMeter.session_start_measured_value := measured_value m2\<rparr>)"

definition SourceMeter_stop :: "SourceMeter \<Rightarrow> SourceMeter result" where
  "SourceMeter_stop m =
     (let m1 = m\<lparr>measuring := False\<rparr>
      in case py_sub (source_value m1) (SourceMeter.session_start_value m1) of
           Inl e \<Rightarrow> Raised e m1
         | Inr t \<Rightarrow>
             (let m2 = m1\<lparr>SourceMeter.session_total := Some t\<rparr>
              in Returned
                (m2\<lparr>measured_value := SourceMeter.session_start_measured_value m2 + t\<rparr>)))"

definition SourceMeter_update :: "decimal option \<Rightarrow> SourceMeter \<Rightarrow> SourceMeter result" where
  "SourceMeter_update v m =
     (let m1 = m\<lparr>source_value := v\<rparr>
      in if measuring m1 then
           (case py_sub (source_value m1) (SourceMeter.session_start_value m1) of
              Inl e \<Rightarrow> Raised e m1
            | Inr t \<Rightarrow>
                (let m2 = m1\<lparr>SourceMeter.session_total := Some t\<rparr>
                 in Returned
                   (m2\<lparr>measured_value := SourceMeter.session_start_measured_value m2 + t\<rparr>)))
         else Returned m1)"

definition SourceMeter_reset :: "SourceMeter \<Rightarrow> SourceMeter result" where
  "SourceMeter_reset m =
     (if measuring m then
        and_then (SourceMeter_stop m)
          (\<lambda>m1. Returned (SourceMeter_start
             (m1\<lparr>prev_measured_value := measured_value m1, measured_value := 0\<rparr>)))
      else Returned (m\<lparr>prev_measured_value := measured_value m, measured_value := 0\<rparr>))"

definition SourceMeter_to_dict :: "SourceMeter \<Rightarrow> snapshot" where
  "SourceMeter_to_dict m =
     (MeasureItMeter_to_dict m)
       (''session_start_value'' \<mapsto> of_optional (SourceMeter.session_start_value m),
        ''session_start_measured_value'' \<mapsto>
           PyDecimal (SourceMeter.session_start_measured_value m),
        ''source_value'' \<mapsto> of_optional (source_value m))"

text \<open>
  \<^verbatim>\<open>from_dict\<close> in two parts: the assignments of the base and session fields, then the
  choice between the reading the meter was constructed with and the snapshot's.
  \<^verbatim>\<open>if self._source_value:\<close> is the truth value of the reading: false for
  \<^verbatim>\<open>None\<close> and for \<^verbatim>\<open>Decimal(0)\<close>.
\<close>

definition SourceMeter_restore_fields :: "snapshot \<Rightarrow> SourceMeter \<Rightarrow> SourceMeter result" where
  "SourceMeter_restore_fields data m =
     and_then (and_then (MeasureItMeter_from_dict data m)
       (assign_decimal data ''session_start_value''
          (\<lambda>d s. s\<lparr>SourceMeter.session_start_value := Some d\<rparr>)))
       (assign_decimal data ''session_start_measured_value''
          (\<lambda>d s. s\<lparr>SourceMeter.session_start_measured_value := d\<rparr>))"

definition SourceMeter_from_dict :: "snapshot \<Rightarrow> SourceMeter \<Rightarrow> SourceMeter result" where
  "SourceMeter_from_dict data m =
     and_then (SourceMeter_restore_fields data m)
       (\<lambda>m1. if truthy (of_optional (source_value m1))
              then SourceMeter_update (source_value m1) m1
              else assign_decimal data ''source_value''
                     (\<lambda>d s. s\<lparr>source_value := Some d\<rparr>) m1)"

subsection \<open>TimeMeter\<close>

text \<open>
  \<^verbatim>\<open>get_timestamp\<close> reads the clock. Each operation takes the reading its call of
  \<^verbatim>\<open>get_timestamp\<close> returns; \<^verbatim>\<open>reset\<close> may read twice, in \<^verbatim>\<open>stop\<close> and in
  \<^verbatim>\<open>start\<close>. All fields are always decimals, so no operation raises.
\<close>

record TimeMeter = MeasureItMeter +
  session_start_value :: decimal
  session_start_measured_value :: decimal
  session_total :: "decimal option"

definition TimeMeter_init :: TimeMeter where
  "TimeMeter_init =
     \<lparr>measured_value = 0, prev_measured_value = 0, measuring = False,
      TimeMeter.session_start_value = 0,
      TimeMeter.session_start_measured_value = 0,
      TimeMeter.session_total = None\<rparr>"

definition TimeMeter_start :: "decimal \<Rightarrow> TimeMeter \<Rightarrow> TimeMeter" where
  "TimeMeter_start now m =
     (let m1 = m\<lparr>measuring := True\<rparr>;
          m2 = m1\<lparr>TimeMeter.session_start_value := now\<rparr>
      in m2\<lparr>TimeMeter.session_start_measured_value := measured_value m2\<rparr>)"

definition TimeMeter_stop :: "decimal \<Rightarrow> TimeMeter \<Rightarrow> TimeMeter" where
  "TimeMeter_stop now m =
     (let m1 = m\<lparr>measuring := False\<rparr>;
          t = now - TimeMeter.session_start_value m1;
          m2 = m1\<lparr>TimeMeter.session_total := Some t\<rparr>
      in m2\<lparr>measured_value := TimeMeter.session_start_measured_value m2 + t\<rparr>)"

text \<open>\<^verbatim>\<open>update\<close> takes a value, as the base class declares it, and ignores it.\<close>

definition TimeMeter_update :: "decimal \<Rightarrow> decimal option \<Rightarrow> TimeMeter \<Rightarrow> TimeMeter" where
  "TimeMeter_update now v m =
     (if measuring m then
        (let t = now - TimeMeter.session_start_value m;
             m1 = m\<lparr>TimeMeter.session_total := Some t\<rparr>
         in m1\<lparr>measured_value := TimeMeter.session_start_measured_value m1 + t\<rparr>)
      else m)"

definition TimeMeter_reset :: "decimal \<Rightarrow> decimal \<Rightarrow> TimeMeter \<Rightarrow> TimeMeter" where
  "TimeMeter_reset now1 now2 m =
     (let m1 = (if measuring m then TimeMeter_stop now1 m else m);
          m2 = m1\<lparr>prev_measured_value := measured_value m1\<rparr>;
          m3 = m2\<lparr>measured_value := 0\<rparr>
      in if measuring m3 then TimeMeter_start now2 m3 else m3)"

definition TimeMeter_to_dict :: "TimeMeter \<Rightarrow> snapshot" where
  "TimeMeter_to_dict m =
     (MeasureItMeter_to_dict m)
       (''session_start_value'' \<mapsto> PyDecimal (TimeMeter.session_start_value m),
        ''session_start_measured_value'' \<mapsto>
           PyDecimal (TimeMeter.session_start_measured_value m))"

definition TimeMeter_from_dict :: "snapshot \<Rightarrow> TimeMeter \<Rightarrow> TimeMeter result" where
  "TimeMeter_from_dict data m =
     and_then (and_then (MeasureItMeter_from_dict data m)
       (assign_decimal data ''session_start_value''
          (\<lambda>d s. s\<lparr>TimeMeter.session_start_value := d\<rparr>)))
       (assign_decimal data ''session_start_measured_value''
          (\<lambda>d s. s\<lparr>TimeMeter.session_start_measured_value := d\<rparr>))"

section \<open>Calls, dispatch and runs\<close>

text \<open>
  The owner of a meter holds it as a \<^verbatim>\<open>MeasureItMeter\<close> and calls the four lifecycle
  methods; which body runs depends on the class of the object. \<open>meter\<close> is the closed
  set of the three classes, the \<open>meter_\<close> functions are the inherited properties and
  the dynamic dispatch.
\<close>

datatype call = Start | Stop | Update "decimal option" | Reset

datatype meter = Counter CounterMeter | Source SourceMeter | Time TimeMeter

fun meter_measured_value :: "meter \<Rightarrow> decimal" where
  "meter_measured_value (Counter m) = measured_value m"
| "meter_measured_value (Source m) = measured_value m"
| "meter_measured_value (Time m) = measured_value m"

fun meter_prev_measured_value :: "meter \<Rightarrow> decimal" where
  "meter_prev_measured_value (Counter m) = prev_measured_value m"
| "meter_prev_measured_value (Source m) = prev_measured_value m"
| "meter_prev_measured_value (Time m) = prev_measured_value m"

fun meter_measuring :: "meter \<Rightarrow> bool" where
  "meter_measuring (Counter m) = measuring m"
| "meter_measuring (Source m) = measuring m"
| "meter_measuring (Time m) = measuring m"

fun map_state :: "('a \<Rightarrow> 'b) \<Rightarrow> 'a result \<Rightarrow> 'b result" where
  "map_state f (Returned s) = Returned (f s)"
| "map_state f (Raised e s) = Raised e (f s)"

fun CounterMeter_call :: "call \<Rightarrow> CounterMeter \<Rightarrow> CounterMeter result" where
  "CounterMeter_call Start m = Returned (CounterMeter_start m)"
| "CounterMeter_call Stop m = Returned (CounterMeter_stop m)"
| "CounterMeter_call (Update v) m = CounterMeter_update v m"
| "CounterMeter_call Reset m = Returned (CounterMeter_reset m)"

fun SourceMeter_call :: "call \<Rightarrow> SourceMeter \<Rightarrow> SourceMeter result" where
  "SourceMeter_call Start m = Returned (SourceMeter_start m)"
| "SourceMeter_call Stop m = SourceMeter_stop m"
| "SourceMeter_call (Update v) m = SourceMeter_update v m"
| "SourceMeter_call Reset m = SourceMeter_reset m"

text \<open>
  A call on a TimeMeter comes with the clock readings it obtains: \<open>now1\<close> from its
  first call of \<^verbatim>\<open>get_timestamp\<close>, \<open>now2\<close> from a second one (only \<^verbatim>\<open>reset\<close> can
  read twice). A fake clock that stands still during a call has \<open>now1 = now2\<close>.
\<close>

fun TimeMeter_call :: "decimal \<Rightarrow> decimal \<Rightarrow> call \<Rightarrow> TimeMeter \<Rightarrow> TimeMeter result" where
  "TimeMeter_call now1 now2 Start m = Returned (TimeMeter_start now1 m)"
| "TimeMeter_call now1 now2 Stop m = Returned (TimeMeter_stop now1 m)"
| "TimeMeter_call now1 now2 (Update v) m = Returned (TimeMeter_update now1 v m)"
| "TimeMeter_call now1 now2 Reset m = Returned (TimeMeter_reset now1 now2 m)"

fun meter_call :: "decimal \<Rightarrow> decimal \<Rightarrow> call \<Rightarrow> meter \<Rightarrow> meter result" where
  "meter_call now1 now2 c (Counter m) = map_state Counter (CounterMeter_call c m)"
| "meter_call now1 now2 c (Source m) = map_state Source (SourceMeter_call c m)"
| "meter_call now1 now2 c (Time m) = map_state Time (TimeMeter_call now1 now2 c m)"

text \<open>
  A run is a list of calls, each with its two clock readings, made one after the other
  on the same object. A caller that catches an exception goes on with the object as the
  failed call left it.
\<close>

type_synonym timed_call = "call \<times> decimal \<times> decimal"

fun run_calls :: "timed_call list \<Rightarrow> meter \<Rightarrow> meter" where
  "run_calls [] m = m"
| "run_calls ((c, now1, now2) # cs) m = run_calls cs (state_of (meter_call now1 now2 c m))"

text \<open>The objects the three constructors make.\<close>

fun constructed :: "meter \<Rightarrow> bool" where
  "constructed (Counter m) = (m = CounterMeter_init)"
| "constructed (Source m) = (m = SourceMeter_init (source_value m))"
| "constructed (Time m) = (m = TimeMeter_init)"

text \<open>
  The session equation of a SourceMeter: while it measures and both the reading and the
  session anchor are known, the measured value is the anchor's measured value plus the
  delta of the source since the anchor.
\<close>

definition session_consistent :: "SourceMeter \<Rightarrow> bool" where
  "session_consistent m =
     (case (measuring m, source_value m, SourceMeter.session_start_value m) of
        (True, Some v, Some a) \<Rightarrow>
           measured_value m = SourceMeter.session_start_measured_value m + (v - a)
      | _ \<Rightarrow> True)"

fun meter_session_consistent :: "meter \<Rightarrow> bool" where
  "meter_session_consistent (Source m) = session_consistent m"
| "meter_session_consistent _ = True"

section \<open>Scenarios\<close>

text \<open>
  Meters in the states the properties below are tried on. A SourceMeter constructed with
  the reading 100, started and updated with 110: it measures and shows 10.
\<close>

definition metering_source_meter :: SourceMeter where
  "metering_source_meter =
     state_of (SourceMeter_update (Some 110) (SourceMeter_start (SourceMeter_init (Some 100))))"

text \<open>The same meter stopped and then updated with 150: idle, still showing 10.\<close>

definition paused_source_meter :: SourceMeter where
  "paused_source_meter =
     state_of (SourceMeter_update (Some 150) (state_of (SourceMeter_stop metering_source_meter)))"

text \<open>A TimeMeter started with the clock at 0, and the same meter ticked at 10.\<close>

definition running_time_meter :: TimeMeter where
  "running_time_meter = TimeMeter_start 0 TimeMeter_init"

definition ticked_time_meter :: TimeMeter where
  "ticked_time_meter = TimeMeter_update 10 None running_time_meter"

text \<open>A CounterMeter that counted 5 and was reset.\<close>

definition reset_counter_meter :: CounterMeter where
  "reset_counter_meter =
     CounterMeter_reset
       (state_of (CounterMeter_update (Some 5) (CounterMeter_start CounterMeter_init)))"

text \<open>
  Calls without a reset: an update, a stop, an update with no value while idle, a start,
  and an update with no value while measuring (which raises on a CounterMeter and on a
  SourceMeter).
\<close>

definition pause_and_resume :: "timed_call list" where
  "pause_and_resume =
     [(Update (Some 3), 0, 0), (Stop, 1, 1), (Update None, 2, 2), (Start, 3, 3),
      (Update None, 4, 4)]"

text \<open>
  The calls that take a meter from its constructor to a measuring state, and the
  measuring SourceMeter above after a reset.
\<close>

definition start_and_update :: "timed_call list" where
  "start_and_update = [(Start, 0, 0), (Update (Some 110), 10, 10)]"

definition reset_source_meter :: SourceMeter where
  "reset_source_meter = state_of (SourceMeter_reset metering_source_meter)"

text \<open>
  The measuring SourceMeter above after an update with no value: the call raised, the
  reading is unknown, the meter still measures and shows 10.
\<close>

definition unknown_reading_source_meter :: SourceMeter where
  "unknown_reading_source_meter = state_of (SourceMeter_update None metering_source_meter)"

text \<open>
  A snapshot with every key and every value of the right type, whose measured value 5 is
  not the session's starting measured value 0 plus the delta 200 - 100, and the
  SourceMeter constructed with no reading after restoring it.
\<close>

definition inconsistent_snapshot :: snapshot where
  "inconsistent_snapshot =
     [''measured_value'' \<mapsto> PyDecimal 5,
      ''prev_measured_value'' \<mapsto> PyDecimal 0,
      ''measuring'' \<mapsto> PyBool True,
      ''session_start_value'' \<mapsto> PyDecimal 100,
      ''session_start_measured_value'' \<mapsto> PyDecimal 0,
      ''source_value'' \<mapsto> PyDecimal 200]"

definition restored_source_meter :: SourceMeter where
  "restored_source_meter =
     state_of (SourceMeter_from_dict inconsistent_snapshot (SourceMeter_init None))"

section \<open>Unfolding the operations\<close>

lemmas CounterMeter_defs = CounterMeter_init_def MeasureItMeter_init_def CounterMeter_start_def
  CounterMeter_stop_def CounterMeter_update_def CounterMeter_reset_def

lemmas SourceMeter_defs = SourceMeter_init_def SourceMeter_start_def SourceMeter_stop_def
  SourceMeter_update_def SourceMeter_reset_def Let_def

lemmas TimeMeter_defs = TimeMeter_init_def TimeMeter_start_def TimeMeter_stop_def
  TimeMeter_update_def TimeMeter_reset_def Let_def

lemma state_of_map_state: "state_of (map_state f r) = f (state_of r)"
  by (cases r) simp_all

lemma returns_map_state: "returns (map_state f r) = returns r"
  by (cases r) simp_all

lemma returns_state_of: "returns r \<Longrightarrow> r = Returned (state_of r)"
  by (cases r) simp_all

lemma metering_source_meter_eq:
  "metering_source_meter =
     \<lparr>measured_value = 10, prev_measured_value = 0, measuring = True,
      SourceMeter.session_start_value = Some 100,
      SourceMeter.session_start_measured_value = 0,
      source_value = Some 110,
      SourceMeter.session_total = Some 10\<rparr>"
  by (simp add: metering_source_meter_def SourceMeter_defs)

lemma paused_source_meter_eq:
  "paused_source_meter =
     \<lparr>measured_value = 10, prev_measured_value = 0, measuring = False,
      SourceMeter.session_start_value = Some 100,
      SourceMeter.session_start_measured_value = 0,
      source_value = Some 150,
      SourceMeter.session_total = Some 10\<rparr>"
  by (simp add: paused_source_meter_def metering_source_meter_eq SourceMeter_defs)

lemma running_time_meter_eq:
  "running_time_meter =
     \<lparr>measured_value = 0, prev_measured_value = 0, measuring = True,
      TimeMeter.session_start_value = 0,
      TimeMeter.session_start_measured_value = 0,
      TimeMeter.session_total = None\<rparr>"
  by (simp add: running_time_meter_def TimeMeter_defs)

lemma ticked_time_meter_eq:
  "ticked_time_meter =
     \<lparr>measured_value = 10, prev_measured_value = 0, measuring = True,
      TimeMeter.session_start_value = 0,
      TimeMeter.session_start_measured_value = 0,
      TimeMeter.session_total = Some 10\<rparr>"
  by (simp add: ticked_time_meter_def running_time_meter_eq TimeMeter_defs)

lemma reset_counter_meter_eq:
  "reset_counter_meter =
     \<lparr>measured_value = 0, prev_measured_value = 5, measuring = True\<rparr>"
  by (simp add: reset_counter_meter_def CounterMeter_defs)

section \<open>Source delta continuity\<close>

text \<open>
  Claim C7. A SourceMeter constructed with the reading 100: after \<^verbatim>\<open>start()\<close> and
  \<^verbatim>\<open>update(110)\<close> the measured value is 10; after \<^verbatim>\<open>stop()\<close> and \<^verbatim>\<open>update(150)\<close>,
  made while idle, it is still 10; after \<^verbatim>\<open>start()\<close>, which anchors the session at
  150, and \<^verbatim>\<open>update(170)\<close> it is 30. Every call of the scenario returns normally.
\<close>

theorem source_delta_continuity_across_pause:
  "(let r1 = SourceMeter_update (Some 110) (SourceMeter_start (SourceMeter_init (Some 100)));
        r2 = SourceMeter_stop (state_of r1);
        r3 = SourceMeter_update (Some 150) (state_of r2);
        m4 = SourceMeter_start (state_of r3);
        r5 = SourceMeter_update (Some 170) m4
    in returns r1 \<and> measured_value (state_of r1) = 10
     \<and> returns r2 \<and> returns r3 \<and> \<not> measuring (state_of r3)
     \<and> measured_value (state_of r3) = 10
     \<and> SourceMeter.session_start_value m4 = Some 150
     \<and> returns r5 \<and> measured_value (state_of r5) = 30)"
  by (simp add: SourceMeter_defs)

section \<open>Update\<close>

text \<open>
  Claim C8. \<^verbatim>\<open>update\<close> with an absent value on a CounterMeter or a SourceMeter that
  is measuring does not return normally: it raises \<^verbatim>\<open>TypeError\<close>. The failed call
  leaves the CounterMeter as it was; on the SourceMeter it has overwritten the source
  reading only, so the measured value and the previous measured value are unchanged on both.
\<close>

theorem update_absent_while_measuring_fails:
  assumes "measuring c" and "measuring s"
  shows "CounterMeter_update None c = Raised TypeError c
    \<and> SourceMeter_update None s = Raised TypeError (s\<lparr>source_value := None\<rparr>)
    \<and> measured_value (state_of (SourceMeter_update None s)) = measured_value s
    \<and> prev_measured_value (state_of (SourceMeter_update None s)) = prev_measured_value s"
  using assms by (simp add: CounterMeter_update_def SourceMeter_update_def Let_def)

theorem update_absent_while_measuring_fails_witness:
  "measuring (CounterMeter_start CounterMeter_init)
   \<and> measuring metering_source_meter
   \<and> CounterMeter_update None (CounterMeter_start CounterMeter_init)
       = Raised TypeError (CounterMeter_start CounterMeter_init)
   \<and> SourceMeter_update None metering_source_meter
       = Raised TypeError (metering_source_meter\<lparr>source_value := None\<rparr>)
   \<and> measured_value (state_of (SourceMeter_update None metering_source_meter))
       = measured_value metering_source_meter
   \<and> prev_measured_value (state_of (SourceMeter_update None metering_source_meter))
       = prev_measured_value metering_source_meter"
proof -
  have c: "measuring (CounterMeter_start CounterMeter_init)"
    by (simp add: CounterMeter_start_def)
  have s: "measuring metering_source_meter"
    by (simp add: metering_source_meter_eq)
  from update_absent_while_measuring_fails [OF c s] c s show ?thesis
    by blast
qed

text \<open>
  Claim C9. For every SourceMeter and every argument, a decimal or absent,
  \<^verbatim>\<open>update(v)\<close> leaves \<open>v\<close> as the meter's source reading whether the meter
  measures or not and whether the call returns or raises. While idle the call returns
  and changes nothing else, so the measured value is not recomputed. While measuring
  with \<open>v\<close> absent the call raises \<^verbatim>\<open>TypeError\<close> and the reading stays overwritten.
\<close>

theorem source_update_always_records_reading:
  "source_value (state_of (SourceMeter_update v m)) = v
   \<and> (\<not> measuring m \<longrightarrow> SourceMeter_update v m = Returned (m\<lparr>source_value := v\<rparr>))
   \<and> (measuring m \<and> v = None \<longrightarrow>
        SourceMeter_update v m = Raised TypeError (m\<lparr>source_value := None\<rparr>))"
  by (cases v; cases "SourceMeter.session_start_value m")
    (simp_all add: SourceMeter_update_def Let_def)

theorem source_update_always_records_reading_witness:
  "\<not> measuring paused_source_meter
   \<and> source_value (state_of (SourceMeter_update (Some 170) paused_source_meter)) = Some 170
   \<and> SourceMeter_update (Some 170) paused_source_meter
       = Returned (paused_source_meter\<lparr>source_value := Some 170\<rparr>)
   \<and> measuring metering_source_meter
   \<and> source_value (state_of (SourceMeter_update None metering_source_meter)) = None
   \<and> SourceMeter_update None metering_source_meter
       = Raised TypeError (metering_source_meter\<lparr>source_value := None\<rparr>)"
proof -
  have i: "\<not> measuring paused_source_meter"
    by (simp add: paused_source_meter_eq)
  have s: "measuring metering_source_meter"
    by (simp add: metering_source_meter_eq)
  from i s
    source_update_always_records_reading [of "Some 170" paused_source_meter]
    source_update_always_records_reading [of None metering_source_meter]
  show ?thesis
    by blast
qed

section \<open>The previous measured value is written by reset alone\<close>

lemma CounterMeter_call_prev:
  "c \<noteq> Reset \<Longrightarrow>
     prev_measured_value (state_of (CounterMeter_call c m)) = prev_measured_value m"
  by (cases c) (simp_all add: CounterMeter_defs split: sum.splits)

lemma SourceMeter_call_prev:
  "c \<noteq> Reset \<Longrightarrow>
     prev_measured_value (state_of (SourceMeter_call c m)) = prev_measured_value m"
  by (cases c) (simp_all add: SourceMeter_defs split: sum.splits)

lemma TimeMeter_call_prev:
  "c \<noteq> Reset \<Longrightarrow>
     prev_measured_value (state_of (TimeMeter_call now1 now2 c m)) = prev_measured_value m"
  by (cases c) (simp_all add: TimeMeter_defs)

lemma meter_call_prev:
  "c \<noteq> Reset \<Longrightarrow>
     meter_prev_measured_value (state_of (meter_call now1 now2 c m))
       = meter_prev_measured_value m"
  by (cases m)
    (simp_all add: state_of_map_state CounterMeter_call_prev SourceMeter_call_prev
      TimeMeter_call_prev)

text \<open>
  Claim C10. For every meter of the three classes and every finite sequence of
  \<^verbatim>\<open>start()\<close>, \<^verbatim>\<open>stop()\<close> and \<^verbatim>\<open>update()\<close> calls, whatever their arguments and
  clock readings and whether or not some of them raise, the previous measured value after
  the sequence is the one before it.
\<close>

theorem prev_measured_value_frame:
  assumes "Reset \<notin> fst ` set cs"
  shows "meter_prev_measured_value (run_calls cs m) = meter_prev_measured_value m"
  using assms
proof (induction cs arbitrary: m)
  case Nil
  show ?case by simp
next
  case (Cons tc cs)
  obtain c now1 now2 where tc: "tc = (c, now1, now2)"
    by (cases tc)
  from Cons.prems tc have "c \<noteq> Reset" and rest: "Reset \<notin> fst ` set cs"
    by auto
  then have "meter_prev_measured_value (state_of (meter_call now1 now2 c m))
      = meter_prev_measured_value m"
    by (simp add: meter_call_prev)
  with Cons.IH [OF rest] tc show ?case
    by simp
qed

theorem prev_measured_value_frame_witness:
  "Reset \<notin> fst ` set pause_and_resume
   \<and> meter_prev_measured_value (run_calls pause_and_resume (Counter reset_counter_meter))
     = meter_prev_measured_value (Counter reset_counter_meter)
   \<and> meter_prev_measured_value (Counter reset_counter_meter) = 5"
proof -
  have h: "Reset \<notin> fst ` set pause_and_resume"
    by (simp add: pause_and_resume_def)
  have v: "meter_prev_measured_value (Counter reset_counter_meter) = 5"
    by (simp add: reset_counter_meter_eq)
  from h v prev_measured_value_frame [OF h, of "Counter reset_counter_meter"] show ?thesis
    by blast
qed

section \<open>Stop\<close>

text \<open>The state \<^verbatim>\<open>SourceMeter.stop\<close> leaves, with the sum and the difference exact.\<close>

lemma SourceMeter_stop_state:
  "state_of (SourceMeter_stop m) =
     (case py_sub (source_value m) (SourceMeter.session_start_value m) of
        Inl e \<Rightarrow> m\<lparr>measuring := False\<rparr>
      | Inr t \<Rightarrow> m\<lparr>measuring := False, SourceMeter.session_total := Some t,
                  measured_value := SourceMeter.session_start_measured_value m + t\<rparr>)"
  by (simp add: SourceMeter_stop_def Let_def split: sum.splits)

text \<open>A second \<^verbatim>\<open>stop()\<close> right after a \<^verbatim>\<open>stop()\<close> that returned changes nothing.\<close>

lemma SourceMeter_stop_idempotent:
  "SourceMeter_stop m = Returned m' \<Longrightarrow> SourceMeter_stop m' = Returned m'"
  by (auto simp add: SourceMeter_stop_def Let_def split: sum.splits)

text \<open>
  \<^verbatim>\<open>stop\<close> computes what \<^verbatim>\<open>update\<close> computes on a measuring meter, from the
  reading the meter holds (a SourceMeter) or from the clock (a TimeMeter), and leaves the
  meter idle. Neither statement names a sum or a difference: they hold whatever the
  arithmetic of \<^verbatim>\<open>Decimal\<close> gives.
\<close>

lemma SourceMeter_stop_as_update:
  "SourceMeter_stop m =
     map_state (\<lambda>x. x\<lparr>measuring := False\<rparr>)
       (SourceMeter_update (source_value m) (m\<lparr>measuring := True\<rparr>))"
  by (simp add: SourceMeter_stop_def SourceMeter_update_def Let_def split: sum.splits)

lemma TimeMeter_stop_as_update:
  "TimeMeter_stop now m = (TimeMeter_update now v (m\<lparr>measuring := True\<rparr>))\<lparr>measuring := False\<rparr>"
  by (simp add: TimeMeter_stop_def TimeMeter_update_def Let_def)

lemma map_state_comp: "map_state f (map_state g r) = map_state (\<lambda>x. f (g x)) r"
  by (cases r) simp_all

lemma SourceMeter_stop_raises:
  "source_value m = None \<or> SourceMeter.session_start_value m = None \<Longrightarrow>
     SourceMeter_stop m = Raised TypeError (m\<lparr>measuring := False\<rparr>)"
  by (cases "source_value m"; cases "SourceMeter.session_start_value m")
     (auto simp add: SourceMeter_stop_def Let_def)

text \<open>
  Against claim C3 as stated. The SourceMeter constructed with 100, started, updated with
  110, stopped and updated with 150 is idle and shows 10. \<^verbatim>\<open>stop()\<close> on it returns and
  the meter then shows 50: \<^verbatim>\<open>stop\<close> has no test of the measuring flag and computes
  the session total from the reading recorded while idle.
\<close>

theorem idle_stop_changes_measured_value:
  "\<not> meter_measuring (Source paused_source_meter)
   \<and> meter_measured_value (Source paused_source_meter) = 10
   \<and> returns (meter_call 0 0 Stop (Source paused_source_meter))
   \<and> meter_measured_value (state_of (meter_call 0 0 Stop (Source paused_source_meter))) = 50
   \<and> meter_measured_value (state_of (meter_call 0 0 Stop (Source paused_source_meter)))
       \<noteq> meter_measured_value (Source paused_source_meter)"
  by (simp add: paused_source_meter_eq returns_map_state state_of_map_state
      SourceMeter_stop_def Let_def)

text \<open>
  Against claim C3 as stated, on a TimeMeter. The meter as constructed is idle and shows
  0. \<^verbatim>\<open>stop()\<close> with the clock at 10 returns and the meter then shows 10.
\<close>

theorem idle_time_meter_stop_changes_measured_value:
  "\<not> meter_measuring (Time TimeMeter_init)
   \<and> meter_measured_value (Time TimeMeter_init) = 0
   \<and> returns (meter_call 10 10 Stop (Time TimeMeter_init))
   \<and> meter_measured_value (state_of (meter_call 10 10 Stop (Time TimeMeter_init))) = 10"
  by (simp add: TimeMeter_init_def TimeMeter_stop_def Let_def)

text \<open>
  Claim C3, amended. For every meter of the three classes, \<^verbatim>\<open>stop()\<close> on an idle meter
  leaves the previous measured value unchanged and the meter idle. On a CounterMeter it
  returns and changes nothing. On a SourceMeter it does what \<^verbatim>\<open>update\<close> with the
  reading the meter holds does on the same meter while measuring, and the meter is idle
  afterwards: it returns with the session total and the measured value recomputed from
  the session anchor, or raises as that update does; when the reading or the session's
  starting reading is absent it raises \<^verbatim>\<open>TypeError\<close> and changes nothing. On a
  TimeMeter it does what \<^verbatim>\<open>update()\<close> at the same clock reading does on the same
  meter while measuring, and the meter is idle afterwards. So on these two classes the
  measured value is recomputed, not kept.
\<close>

theorem idle_stop_recomputes:
  assumes "\<not> meter_measuring m"
  shows "meter_prev_measured_value (state_of (meter_call now1 now2 Stop m))
           = meter_prev_measured_value m
    \<and> \<not> meter_measuring (state_of (meter_call now1 now2 Stop m))
    \<and> (case m of
         Counter c \<Rightarrow> meter_call now1 now2 Stop m = Returned m
       | Source s \<Rightarrow>
           meter_call now1 now2 Stop m =
             map_state (\<lambda>x. Source (x\<lparr>measuring := False\<rparr>))
               (SourceMeter_update (source_value s) (s\<lparr>measuring := True\<rparr>))
           \<and> (source_value s = None \<or> SourceMeter.session_start_value s = None \<longrightarrow>
                meter_call now1 now2 Stop m = Raised TypeError m)
       | Time t \<Rightarrow>
           meter_call now1 now2 Stop m =
             map_state (\<lambda>x. Time (x\<lparr>measuring := False\<rparr>))
               (TimeMeter_call now1 now2 (Update None) (t\<lparr>measuring := True\<rparr>)))"
proof (cases m)
  case (Counter c)
  with assms show ?thesis
    by (simp add: CounterMeter_stop_def)
next
  case (Source s)
  with assms have idle: "s\<lparr>measuring := False\<rparr> = s"
    by simp
  have c: "meter_call now1 now2 Stop m = map_state Source (SourceMeter_stop s)"
    using Source by simp
  have p: "meter_prev_measured_value (state_of (meter_call now1 now2 Stop m))
      = meter_prev_measured_value m"
    unfolding c using Source
    by (simp add: state_of_map_state SourceMeter_stop_state split: sum.splits)
  have i: "\<not> meter_measuring (state_of (meter_call now1 now2 Stop m))"
    unfolding c by (simp add: state_of_map_state SourceMeter_stop_state split: sum.splits)
  have e: "meter_call now1 now2 Stop m =
      map_state (\<lambda>x. Source (x\<lparr>measuring := False\<rparr>))
        (SourceMeter_update (source_value s) (s\<lparr>measuring := True\<rparr>))"
    unfolding c by (simp add: SourceMeter_stop_as_update map_state_comp)
  have r: "meter_call now1 now2 Stop m = Raised TypeError m"
    if "source_value s = None \<or> SourceMeter.session_start_value s = None"
    unfolding c using SourceMeter_stop_raises [OF that] idle Source by simp
  from p i e r show ?thesis
    unfolding Source meter.case by blast
next
  case (Time t)
  have "prev_measured_value (TimeMeter_stop now1 t) = prev_measured_value t"
    and "\<not> measuring (TimeMeter_stop now1 t)"
    by (simp_all add: TimeMeter_stop_def Let_def)
  moreover have "TimeMeter_stop now1 t =
      (TimeMeter_update now1 None (t\<lparr>measuring := True\<rparr>))\<lparr>measuring := False\<rparr>"
    by (rule TimeMeter_stop_as_update)
  ultimately show ?thesis
    unfolding Time meter.case meter_call.simps TimeMeter_call.simps map_state.simps
      state_of.simps meter_prev_measured_value.simps meter_measuring.simps
    by blast
qed

theorem idle_stop_recomputes_witness:
  "\<not> meter_measuring (Source paused_source_meter)
   \<and> meter_prev_measured_value (state_of (meter_call 0 0 Stop (Source paused_source_meter)))
       = meter_prev_measured_value (Source paused_source_meter)
   \<and> \<not> meter_measuring (state_of (meter_call 0 0 Stop (Source paused_source_meter)))
   \<and> meter_call 0 0 Stop (Source paused_source_meter) =
       map_state (\<lambda>x. Source (x\<lparr>measuring := False\<rparr>))
         (SourceMeter_update (source_value paused_source_meter)
            (paused_source_meter\<lparr>measuring := True\<rparr>))
   \<and> \<not> meter_measuring (Source (SourceMeter_init None))
   \<and> source_value (SourceMeter_init None) = None
   \<and> meter_call 0 0 Stop (Source (SourceMeter_init None))
       = Raised TypeError (Source (SourceMeter_init None))"
proof -
  have h1: "\<not> meter_measuring (Source paused_source_meter)"
    by (simp add: paused_source_meter_eq)
  have h2: "\<not> meter_measuring (Source (SourceMeter_init None))"
    by (simp add: SourceMeter_init_def)
  have n: "source_value (SourceMeter_init None) = None"
    by (simp add: SourceMeter_init_def)
  note idle_stop_recomputes [OF h1, of 0 0, unfolded meter.case]
    idle_stop_recomputes [OF h2, of 0 0, unfolded meter.case]
  with h1 h2 n show ?thesis
    by blast
qed

section \<open>Reset\<close>

text \<open>
  \<^verbatim>\<open>TimeMeter.reset\<close> tests the measuring flag a second time after \<^verbatim>\<open>stop()\<close> has
  cleared it, so its call of \<^verbatim>\<open>start()\<close> never runs: the meter is idle after every
  reset, and the second clock reading is never taken.
\<close>

lemma TimeMeter_reset_eq:
  "TimeMeter_reset now1 now2 m =
     (if measuring m
      then m\<lparr>measuring := False,
             TimeMeter.session_total := Some (now1 - TimeMeter.session_start_value m),
             prev_measured_value :=
               TimeMeter.session_start_measured_value m + (now1 - TimeMeter.session_start_value m),
             measured_value := 0\<rparr>
      else m\<lparr>prev_measured_value := measured_value m, measured_value := 0\<rparr>)"
  by (simp add: TimeMeter_defs)

lemma TimeMeter_reset_idle: "\<not> measuring (TimeMeter_reset now1 now2 m)"
  by (simp add: TimeMeter_reset_eq)

lemma CounterMeter_reset_measuring: "measuring (CounterMeter_reset m) = measuring m"
  by (simp add: CounterMeter_reset_def)

lemma SourceMeter_reset_measuring:
  "SourceMeter_reset m = Returned m' \<Longrightarrow> measuring m' = measuring m"
  by (auto simp add: SourceMeter_defs split: if_splits sum.splits)

text \<open>
  With finite readings, a SourceMeter's reset raises exactly when it measures with the
  reading or the session anchor unknown; the meter is then left idle and nothing else is
  changed.
\<close>

lemma SourceMeter_reset_raises:
  "SourceMeter_reset m = Raised e m' \<longleftrightarrow>
     measuring m \<and> (source_value m = None \<or> SourceMeter.session_start_value m = None)
     \<and> e = TypeError \<and> m' = m\<lparr>measuring := False\<rparr>"
  by (cases "source_value m"; cases "SourceMeter.session_start_value m")
    (auto simp add: SourceMeter_defs split: if_splits sum.splits)

text \<open>
  Claim C1, on the code. The TimeMeter is started with the clock at 0 and updated at 10:
  it measures and shows 10. \<^verbatim>\<open>reset()\<close> at 10 leaves the previous measured value 10
  and the measured value 0, as claimed, but the meter is idle, and \<^verbatim>\<open>update()\<close> at 15
  leaves the measured value 0, where the claim has the meter measuring and showing 5.
\<close>

theorem time_meter_reset_scenario:
  "measuring ticked_time_meter
   \<and> measured_value ticked_time_meter = 10
   \<and> prev_measured_value (TimeMeter_reset 10 10 ticked_time_meter) = 10
   \<and> measured_value (TimeMeter_reset 10 10 ticked_time_meter) = 0
   \<and> \<not> measuring (TimeMeter_reset 10 10 ticked_time_meter)
   \<and> measured_value (TimeMeter_update 15 None (TimeMeter_reset 10 10 ticked_time_meter)) = 0"
  by (simp add: ticked_time_meter_eq TimeMeter_reset_eq TimeMeter_update_def)

text \<open>
  Claim C2, on the code. A TimeMeter started with the clock at 0 measures; \<^verbatim>\<open>reset()\<close>
  on it returns and the meter is idle, where the claim has the flag unchanged.
\<close>

theorem time_meter_reset_clears_measuring:
  "meter_measuring (Time running_time_meter)
   \<and> returns (meter_call 10 10 Reset (Time running_time_meter))
   \<and> \<not> meter_measuring (state_of (meter_call 10 10 Reset (Time running_time_meter)))"
  by (simp add: running_time_meter_eq TimeMeter_reset_eq)

section \<open>Snapshots\<close>

lemma MeasureItMeter_from_dict_base:
  assumes "data ''measured_value'' = Some (PyDecimal a)"
    and "data ''prev_measured_value'' = Some (PyDecimal b)"
    and "data ''measuring'' = Some (PyBool c)"
  shows "MeasureItMeter_from_dict data m =
     Returned (m\<lparr>measured_value := a, prev_measured_value := b, measuring := c\<rparr>)"
  using assms by (simp add: MeasureItMeter_from_dict_def assign_decimal_def assign_bool_def)

lemma CounterMeter_round_trip:
  "CounterMeter_from_dict (CounterMeter_to_dict m) m' = Returned m"
  by (simp add: CounterMeter_from_dict_def CounterMeter_to_dict_def
      MeasureItMeter_from_dict_base MeasureItMeter_to_dict_def)

lemma TimeMeter_round_trip:
  "TimeMeter_from_dict (TimeMeter_to_dict m) m' =
     Returned (m\<lparr>TimeMeter.session_total := TimeMeter.session_total m'\<rparr>)"
  by (simp add: TimeMeter_from_dict_def TimeMeter_to_dict_def
      MeasureItMeter_from_dict_base MeasureItMeter_to_dict_def assign_decimal_def)

lemma SourceMeter_to_dict_source_value:
  "SourceMeter_to_dict m ''source_value'' = Some (of_optional (source_value m))"
  by (simp add: SourceMeter_to_dict_def)

text \<open>
  The first part of \<^verbatim>\<open>SourceMeter.from_dict\<close> on a snapshot that \<^verbatim>\<open>to_dict\<close> made:
  \<^verbatim>\<open>Decimal(None)\<close> raises when the snapshot's session anchor is unknown, after the
  three base fields have been written.
\<close>

lemma SourceMeter_restore_fields_to_dict:
  "SourceMeter_restore_fields (SourceMeter_to_dict m) m' =
     (let m1 = m'\<lparr>measured_value := measured_value m,
                  prev_measured_value := prev_measured_value m,
                  measuring := measuring m\<rparr>
      in case SourceMeter.session_start_value m of
           None \<Rightarrow> Raised TypeError m1
         | Some a \<Rightarrow>
             Returned (m1\<lparr>SourceMeter.session_start_value := Some a,
               SourceMeter.session_start_measured_value :=
                 SourceMeter.session_start_measured_value m\<rparr>))"
  by (cases "SourceMeter.session_start_value m")
     (simp_all add: SourceMeter_restore_fields_def SourceMeter_to_dict_def
        MeasureItMeter_from_dict_base MeasureItMeter_to_dict_def assign_decimal_def)

lemma SourceMeter_restore_fields_source_value:
  "source_value (state_of (SourceMeter_restore_fields data m)) = source_value m"
  by (simp add: SourceMeter_restore_fields_def MeasureItMeter_from_dict_def
      assign_decimal_def assign_bool_def split: option.splits sum.splits)

lemma and_then_cong_state:
  "(\<And>s. r = Returned s \<Longrightarrow> f s = g s) \<Longrightarrow> and_then r f = and_then r g"
  by (cases r) simp_all

text \<open>
  The choice \<^verbatim>\<open>from_dict\<close> makes, by the reading the restoring meter was constructed
  with: a reading other than 0 is run through \<^verbatim>\<open>update\<close>; with no reading, and with
  the reading 0, the snapshot's reading is taken.
\<close>

lemma SourceMeter_from_dict_live:
  assumes "source_value m = Some v" and "v \<noteq> 0"
  shows "SourceMeter_from_dict data m =
     and_then (SourceMeter_restore_fields data m) (SourceMeter_update (Some v))"
proof -
  have "source_value m1 = Some v" if "SourceMeter_restore_fields data m = Returned m1" for m1
    using SourceMeter_restore_fields_source_value [of data m] that assms(1) by simp
  then show ?thesis
    unfolding SourceMeter_from_dict_def using assms(2)
    by (intro and_then_cong_state) simp
qed

lemma SourceMeter_from_dict_no_live:
  assumes "source_value m = None \<or> source_value m = Some 0"
  shows "SourceMeter_from_dict data m =
     and_then (SourceMeter_restore_fields data m)
       (assign_decimal data ''source_value'' (\<lambda>d s. s\<lparr>source_value := Some d\<rparr>))"
proof -
  have "\<not> truthy (of_optional (source_value m1))"
    if "SourceMeter_restore_fields data m = Returned m1" for m1
    using SourceMeter_restore_fields_source_value [of data m] that assms by auto
  then show ?thesis
    unfolding SourceMeter_from_dict_def
    by (intro and_then_cong_state) simp
qed

lemma SourceMeter_round_trip:
  assumes "source_value m' = None \<or> source_value m' = Some 0"
  shows "SourceMeter_from_dict (SourceMeter_to_dict m) m' =
     (let m1 = m'\<lparr>measured_value := measured_value m,
                  prev_measured_value := prev_measured_value m,
                  measuring := measuring m\<rparr>
      in case (SourceMeter.session_start_value m, source_value m) of
           (None, _) \<Rightarrow> Raised TypeError m1
         | (Some a, None) \<Rightarrow>
             Raised TypeError (m1\<lparr>SourceMeter.session_start_value := Some a,
               SourceMeter.session_start_measured_value :=
                 SourceMeter.session_start_measured_value m\<rparr>)
         | (Some a, Some v) \<Rightarrow>
             Returned (m\<lparr>SourceMeter.session_total := SourceMeter.session_total m'\<rparr>))"
  by (cases "SourceMeter.session_start_value m"; cases "source_value m")
     (simp_all add: SourceMeter_from_dict_no_live [OF assms] SourceMeter_restore_fields_to_dict
        SourceMeter_to_dict_source_value assign_decimal_def)

lemma SourceMeter_from_dict_to_dict_live:
  assumes "source_value m' = Some v" and "v \<noteq> 0"
  shows "SourceMeter_from_dict (SourceMeter_to_dict m) m' =
     (let m1 = m'\<lparr>measured_value := measured_value m,
                  prev_measured_value := prev_measured_value m,
                  measuring := measuring m\<rparr>
      in case SourceMeter.session_start_value m of
           None \<Rightarrow> Raised TypeError m1
         | Some a \<Rightarrow>
             SourceMeter_update (Some v)
               (m1\<lparr>SourceMeter.session_start_value := Some a,
                 SourceMeter.session_start_measured_value :=
                   SourceMeter.session_start_measured_value m\<rparr>))"
  using assms
  by (cases "SourceMeter.session_start_value m")
     (simp_all add: SourceMeter_from_dict_live SourceMeter_restore_fields_to_dict)

text \<open>A restore that returns keeps the session equation, whatever meter it restores into.\<close>

lemma session_consistent_restore:
  assumes "session_consistent m"
    and "SourceMeter_from_dict (SourceMeter_to_dict m) m' = Returned m''"
  shows "session_consistent m''"
proof (cases "source_value m' = None \<or> source_value m' = Some 0")
  case True
  from assms show ?thesis
    unfolding SourceMeter_round_trip [OF True]
    by (cases "SourceMeter.session_start_value m"; cases "source_value m")
       (auto simp add: session_consistent_def split: bool.splits)
next
  case False
  then obtain v where v: "source_value m' = Some v" "v \<noteq> 0"
    by (cases "source_value m'") auto
  from assms(2) show ?thesis
    unfolding SourceMeter_from_dict_to_dict_live [OF v]
    by (cases "SourceMeter.session_start_value m")
       (auto simp add: SourceMeter_update_def Let_def session_consistent_def
          split: if_splits bool.splits)
qed

subsection \<open>Round trip\<close>

text \<open>
  Against claim C5 as stated. A SourceMeter constructed with no reading is a reachable
  state; its snapshot holds \<^verbatim>\<open>None\<close> as the source reading. Restoring that snapshot
  into a meter constructed with no reading does not return: \<^verbatim>\<open>Decimal(None)\<close> raises
  \<^verbatim>\<open>TypeError\<close>. The restoring meter is left as constructed, so its three observed
  fields do equal those of the snapshot's meter; what fails is the call.
\<close>

theorem restore_of_unknown_reading_raises:
  "\<not> returns (SourceMeter_from_dict (SourceMeter_to_dict (SourceMeter_init None))
       (SourceMeter_init None))
   \<and> SourceMeter_from_dict (SourceMeter_to_dict (SourceMeter_init None)) (SourceMeter_init None)
     = Raised TypeError (SourceMeter_init None)"
  by (simp add: SourceMeter_round_trip SourceMeter_init_def)

text \<open>
  Claim C5, amended. For every CounterMeter state \<open>c\<close> and every TimeMeter state
  \<open>t\<close>, reachable or not, restoring its snapshot into any meter of its class returns,
  and the restoring meter then equals it in the measured value, the previous measured
  value, the measuring flag and every other persisted field. For every SourceMeter state
  \<open>s\<close> and every restoring SourceMeter \<open>s'\<close> that holds no source reading, as one
  constructed with none: after the call, returned or not, the restoring meter equals
  \<open>s\<close> in the measured value, the previous measured value and the measuring flag; the
  call returns exactly when the session's starting reading and the source reading of
  \<open>s\<close> are both known, and then every persisted field equals that of \<open>s\<close>;
  otherwise it raises \<^verbatim>\<open>TypeError\<close>. Nothing is said of a restoring SourceMeter that
  holds a reading.
\<close>

theorem round_trip:
  "CounterMeter_from_dict (CounterMeter_to_dict c) c' = Returned c
   \<and> TimeMeter_from_dict (TimeMeter_to_dict t) t' =
       Returned (t\<lparr>TimeMeter.session_total := TimeMeter.session_total t'\<rparr>)
   \<and> (source_value s' = None \<longrightarrow>
       (let r = SourceMeter_from_dict (SourceMeter_to_dict s) s'
        in measured_value (state_of r) = measured_value s
         \<and> prev_measured_value (state_of r) = prev_measured_value s
         \<and> measuring (state_of r) = measuring s
         \<and> returns r =
             (SourceMeter.session_start_value s \<noteq> None \<and> source_value s \<noteq> None)
         \<and> (returns r \<longrightarrow>
              state_of r = s\<lparr>SourceMeter.session_total := SourceMeter.session_total s'\<rparr>)
         \<and> (\<not> returns r \<longrightarrow> r = Raised TypeError (state_of r))))"
proof -
  have "source_value s' = None \<longrightarrow>
       (let r = SourceMeter_from_dict (SourceMeter_to_dict s) s'
        in measured_value (state_of r) = measured_value s
         \<and> prev_measured_value (state_of r) = prev_measured_value s
         \<and> measuring (state_of r) = measuring s
         \<and> returns r =
             (SourceMeter.session_start_value s \<noteq> None \<and> source_value s \<noteq> None)
         \<and> (returns r \<longrightarrow>
              state_of r = s\<lparr>SourceMeter.session_total := SourceMeter.session_total s'\<rparr>)
         \<and> (\<not> returns r \<longrightarrow> r = Raised TypeError (state_of r)))"
    by (cases "SourceMeter.session_start_value s"; cases "source_value s")
       (simp_all add: SourceMeter_round_trip)
  then show ?thesis
    by (simp only: CounterMeter_round_trip TimeMeter_round_trip simp_thms)
qed

theorem round_trip_witness:
  "source_value (SourceMeter_init None) = None
   \<and> CounterMeter_from_dict (CounterMeter_to_dict reset_counter_meter) CounterMeter_init
       = Returned reset_counter_meter
   \<and> TimeMeter_from_dict (TimeMeter_to_dict ticked_time_meter) TimeMeter_init
       = Returned (ticked_time_meter\<lparr>TimeMeter.session_total :=
           TimeMeter.session_total TimeMeter_init\<rparr>)
   \<and> returns (SourceMeter_from_dict (SourceMeter_to_dict metering_source_meter)
       (SourceMeter_init None))
   \<and> measured_value (state_of (SourceMeter_from_dict (SourceMeter_to_dict metering_source_meter)
       (SourceMeter_init None))) = measured_value metering_source_meter
   \<and> prev_measured_value (state_of (SourceMeter_from_dict
       (SourceMeter_to_dict metering_source_meter) (SourceMeter_init None)))
       = prev_measured_value metering_source_meter
   \<and> measuring (state_of (SourceMeter_from_dict (SourceMeter_to_dict metering_source_meter)
       (SourceMeter_init None))) = measuring metering_source_meter"
proof -
  have h: "source_value (SourceMeter_init None) = None"
    by (simp add: SourceMeter_init_def)
  have k: "SourceMeter.session_start_value metering_source_meter \<noteq> None"
    "source_value metering_source_meter \<noteq> None"
    by (simp_all add: metering_source_meter_eq)
  from h k round_trip [where c = reset_counter_meter and c' = CounterMeter_init
      and t = ticked_time_meter and t' = TimeMeter_init
      and s = metering_source_meter and s' = "SourceMeter_init None"]
  show ?thesis
    by (simp add: Let_def)
qed

subsection \<open>Restore with a live reading\<close>

text \<open>
  Claim C4, on the code. The restoring SourceMeter is constructed with the live reading 0;
  the snapshot is that of the meter constructed with 100, started and updated with 110
  (measuring, session anchor 100, showing 10). \<^verbatim>\<open>from_dict\<close> returns with the
  snapshot's reading 110 as the source reading and the measured value 10: the truth
  test of the reading takes 0 for no reading. Restoring the fields and running
  \<^verbatim>\<open>update(0)\<close>, as the claim has it, gives the source reading 0 and the measured
  value -100.
\<close>

theorem restore_ignores_live_reading_zero:
  "returns (SourceMeter_from_dict (SourceMeter_to_dict metering_source_meter)
      (SourceMeter_init (Some 0)))
   \<and> source_value (state_of (SourceMeter_from_dict (SourceMeter_to_dict metering_source_meter)
        (SourceMeter_init (Some 0)))) = Some 110
   \<and> measured_value (state_of (SourceMeter_from_dict (SourceMeter_to_dict metering_source_meter)
        (SourceMeter_init (Some 0)))) = 10
   \<and> returns (and_then
        (SourceMeter_restore_fields (SourceMeter_to_dict metering_source_meter)
           (SourceMeter_init (Some 0)))
        (SourceMeter_update (Some 0)))
   \<and> source_value (state_of (and_then
        (SourceMeter_restore_fields (SourceMeter_to_dict metering_source_meter)
           (SourceMeter_init (Some 0)))
        (SourceMeter_update (Some 0)))) = Some 0
   \<and> measured_value (state_of (and_then
        (SourceMeter_restore_fields (SourceMeter_to_dict metering_source_meter)
           (SourceMeter_init (Some 0)))
        (SourceMeter_update (Some 0)))) = - 100"
  by (simp add: SourceMeter_round_trip SourceMeter_restore_fields_to_dict
      metering_source_meter_eq SourceMeter_init_def SourceMeter_update_def Let_def)

section \<open>Reset conservation\<close>

text \<open>
  Against claim C6 as stated. The TimeMeter started at 0 and updated at 10 reports 10.
  \<^verbatim>\<open>reset()\<close> with the clock at 12 returns and leaves the previous measured value 12,
  not 10: the \<^verbatim>\<open>stop()\<close> inside \<^verbatim>\<open>reset()\<close> adds the time since the last update to
  the measured value before the snapshot is taken.
\<close>

theorem reset_snapshots_folded_session:
  "meter_measured_value (Time ticked_time_meter) = 10
   \<and> returns (meter_call 12 12 Reset (Time ticked_time_meter))
   \<and> meter_prev_measured_value (state_of (meter_call 12 12 Reset (Time ticked_time_meter))) = 12
   \<and> meter_prev_measured_value (state_of (meter_call 12 12 Reset (Time ticked_time_meter)))
       \<noteq> meter_measured_value (Time ticked_time_meter)"
  by (simp add: ticked_time_meter_eq TimeMeter_reset_eq)

text \<open>
  Against claim C6 as stated, on a SourceMeter. Restoring the snapshot with measured
  value 5, session start 100 and reading 200 into a meter constructed with no reading
  returns; the meter measures and reports 5. \<^verbatim>\<open>reset()\<close> on it returns and leaves the
  previous measured value 0 + (200 - 100) = 100, not 5.
\<close>

theorem reset_after_restored_snapshot:
  "SourceMeter_from_dict inconsistent_snapshot (SourceMeter_init None)
     = Returned restored_source_meter
   \<and> meter_measuring (Source restored_source_meter)
   \<and> meter_measured_value (Source restored_source_meter) = 5
   \<and> returns (meter_call 0 0 Reset (Source restored_source_meter))
   \<and> meter_prev_measured_value (state_of (meter_call 0 0 Reset (Source restored_source_meter)))
       = 100"
proof -
  have e: "SourceMeter_from_dict inconsistent_snapshot (SourceMeter_init None) =
      Returned
        \<lparr>measured_value = 5, prev_measured_value = 0, measuring = True,
         SourceMeter.session_start_value = Some 100,
         SourceMeter.session_start_measured_value = 0,
         source_value = Some 200,
         SourceMeter.session_total = None\<rparr>"
    by (simp add: SourceMeter_from_dict_def SourceMeter_restore_fields_def
        MeasureItMeter_from_dict_def assign_decimal_def assign_bool_def
        inconsistent_snapshot_def SourceMeter_init_def)
  then have r: "SourceMeter_from_dict inconsistent_snapshot (SourceMeter_init None)
      = Returned restored_source_meter"
    by (simp add: restored_source_meter_def)
  from e have m: "restored_source_meter =
      \<lparr>measured_value = 5, prev_measured_value = 0, measuring = True,
       SourceMeter.session_start_value = Some 100,
       SourceMeter.session_start_measured_value = 0,
       source_value = Some 200,
       SourceMeter.session_total = None\<rparr>"
    by (simp add: restored_source_meter_def)
  show ?thesis
    unfolding r by (simp add: m SourceMeter_defs)
qed

text \<open>
  Against claim C6 as stated, a reset that does not return. The measuring SourceMeter
  that reports 10 and has lost its reading: \<^verbatim>\<open>reset()\<close> raises, the measured value
  stays 10 and the previous measured value stays 0.
\<close>

theorem reset_that_raises_snapshots_nothing:
  "meter_measuring (Source unknown_reading_source_meter)
   \<and> meter_measured_value (Source unknown_reading_source_meter) = 10
   \<and> meter_prev_measured_value (Source unknown_reading_source_meter) = 0
   \<and> \<not> returns (meter_call 0 0 Reset (Source unknown_reading_source_meter))
   \<and> meter_measured_value (state_of (meter_call 0 0 Reset (Source unknown_reading_source_meter)))
       = 10
   \<and> meter_prev_measured_value
        (state_of (meter_call 0 0 Reset (Source unknown_reading_source_meter))) = 0"
proof -
  have e: "unknown_reading_source_meter = metering_source_meter\<lparr>source_value := None\<rparr>"
    by (simp add: unknown_reading_source_meter_def metering_source_meter_eq
        SourceMeter_update_def)
  show ?thesis
    unfolding e by (simp add: metering_source_meter_eq SourceMeter_defs)
qed

lemma SourceMeter_reset_exact:
  assumes "SourceMeter_reset s = Returned s'"
  shows "measured_value s' = 0"
    and "prev_measured_value s' =
      (if measuring s then measured_value (state_of (SourceMeter_stop s)) else measured_value s)"
    and "(prev_measured_value s' = measured_value s) = session_consistent s"
  using assms
  by (cases "source_value s"; cases "SourceMeter.session_start_value s";
      auto simp add: session_consistent_def SourceMeter_defs split: if_splits)+

text \<open>
  Claim C6, amended. For every meter state of the three classes, however it was reached:
  when \<^verbatim>\<open>reset()\<close> returns, the measured value is 0, and the previous measured value
  is the measured value reported before the call on a CounterMeter and on an idle meter,
  and the measured value that \<^verbatim>\<open>stop()\<close>, at the clock reading of the reset, leaves
  on a measuring SourceMeter or TimeMeter. On a SourceMeter the previous measured value
  equals the value reported before the call exactly when the meter is idle or its session
  equation holds before the call: the measured value is the session's starting measured
  value plus the reading minus the session's starting reading.
\<close>

theorem reset_conservation:
  assumes "meter_call now1 now2 Reset m = Returned m'"
  shows "meter_measured_value m' = 0
    \<and> meter_prev_measured_value m' =
        (case m of
           Counter c \<Rightarrow> measured_value c
         | Source s \<Rightarrow>
             if measuring s then measured_value (state_of (SourceMeter_stop s))
             else measured_value s
         | Time t \<Rightarrow>
             if measuring t then measured_value (TimeMeter_stop now1 t)
             else measured_value t)
    \<and> (case m of
          Source s \<Rightarrow> (meter_prev_measured_value m' = measured_value s) = session_consistent s
        | _ \<Rightarrow> True)"
proof (cases m)
  case (Counter c)
  with assms show ?thesis
    by (auto simp add: CounterMeter_reset_def)
next
  case (Source s)
  with assms obtain s' where s': "SourceMeter_reset s = Returned s'" "m' = Source s'"
    by (cases "SourceMeter_reset s") auto
  from SourceMeter_reset_exact [OF s'(1)] s'(2) Source show ?thesis
    by simp
next
  case (Time t)
  with assms show ?thesis
    by (auto simp add: TimeMeter_reset_def TimeMeter_stop_def TimeMeter_start_def Let_def)
qed

theorem reset_conservation_witness:
  "meter_call 20 20 Reset (Source metering_source_meter) = Returned (Source reset_source_meter)
   \<and> measuring metering_source_meter
   \<and> session_consistent metering_source_meter
   \<and> meter_measured_value (Source reset_source_meter) = 0
   \<and> meter_prev_measured_value (Source reset_source_meter)
       = measured_value (state_of (SourceMeter_stop metering_source_meter))
   \<and> meter_prev_measured_value (Source reset_source_meter) = measured_value metering_source_meter"
proof -
  have "returns (SourceMeter_reset metering_source_meter)"
    by (simp add: metering_source_meter_eq SourceMeter_defs)
  then have "SourceMeter_reset metering_source_meter = Returned reset_source_meter"
    unfolding reset_source_meter_def by (rule returns_state_of)
  then have h: "meter_call 20 20 Reset (Source metering_source_meter)
      = Returned (Source reset_source_meter)"
    by simp
  have g: "measuring metering_source_meter"
    by (simp add: metering_source_meter_eq)
  have c: "session_consistent metering_source_meter"
    by (simp add: metering_source_meter_eq session_consistent_def)
  note reset_conservation [OF h, unfolded meter.case if_P [OF g]]
  with h g c show ?thesis
    by blast
qed

subsection \<open>Where the session equation holds\<close>

text \<open>
  An update that returns on a measuring SourceMeter sets the measured value by the
  session equation, so the equation holds right after it, whatever the arithmetic.
\<close>

lemma session_consistent_after_update:
  "SourceMeter_update v m = Returned m' \<Longrightarrow> session_consistent m'"
  by (cases v; cases "SourceMeter.session_start_value m")
     (auto simp add: session_consistent_def SourceMeter_update_def Let_def split: if_splits)

text \<open>
  The remaining lemmas rest on the sums and differences being exact, as they are in this
  model and as they are in the code for finite readings that need no rounding: a start
  anchors the session at the reading the meter holds, and the equation then asks that
  \<open>x + (v - v) = x\<close>. With that, the equation holds in a SourceMeter as constructed,
  is kept by every call, returning or raising, and by every restore of a meter's own
  snapshot that returns, into whatever meter. It is not kept by a restore that raises,
  nor by the restore of a snapshot no meter has written, as
  \<open>reset_after_restored_snapshot\<close> shows.
\<close>

lemma session_consistent_init: "session_consistent (SourceMeter_init v)"
  by (simp add: session_consistent_def SourceMeter_init_def)

lemma session_consistent_call:
  "session_consistent m \<Longrightarrow> session_consistent (state_of (SourceMeter_call c m))"
proof (cases c)
  case Start
  then show ?thesis
    by (simp add: session_consistent_def SourceMeter_start_def Let_def split: option.splits)
next
  case Stop
  then show ?thesis
    by (simp add: session_consistent_def SourceMeter_stop_state split: sum.splits)
next
  case (Update v)
  then show ?thesis
    by (cases v; cases "SourceMeter.session_start_value m")
       (simp_all add: session_consistent_def SourceMeter_update_def Let_def)
next
  case Reset
  then show ?thesis
    by (cases "source_value m"; cases "SourceMeter.session_start_value m")
       (simp_all add: session_consistent_def SourceMeter_defs)
qed

lemma meter_session_consistent_call:
  "meter_session_consistent m \<Longrightarrow>
     meter_session_consistent (state_of (meter_call now1 now2 c m))"
  by (cases m) (simp_all add: state_of_map_state session_consistent_call)

lemma meter_session_consistent_run:
  "meter_session_consistent m \<Longrightarrow> meter_session_consistent (run_calls cs m)"
proof (induction cs arbitrary: m)
  case Nil
  then show ?case by simp
next
  case (Cons tc cs)
  obtain c now1 now2 where "tc = (c, now1, now2)"
    by (cases tc)
  with Cons show ?case
    by (simp add: meter_session_consistent_call)
qed

lemma constructed_session_consistent:
  assumes "constructed m"
  shows "meter_session_consistent m"
proof (cases m)
  case (Source s)
  with assms have "s = SourceMeter_init (source_value s)"
    by simp
  then have "session_consistent s"
    by (metis session_consistent_init)
  with Source show ?thesis
    by simp
qed simp_all

text \<open>
  So, with exact arithmetic, a reset that returns on a SourceMeter reached from its
  constructor by calls, or restored from the snapshot of such a meter by a restore that
  returned, leaves the measured value reported before the call as the previous one.
\<close>

lemma SourceMeter_reset_of_run:
  assumes "constructed (Source s0)" and "run_calls cs (Source s0) = Source s"
    and "SourceMeter_reset s = Returned s'"
  shows "measured_value s' = 0 \<and> prev_measured_value s' = measured_value s"
proof -
  from assms(1) have "meter_session_consistent (run_calls cs (Source s0))"
    by (simp only: constructed_session_consistent meter_session_consistent_run)
  with assms(2) have "session_consistent s"
    by simp
  with SourceMeter_reset_exact [OF assms(3)] show ?thesis
    by simp
qed

lemma SourceMeter_reset_after_restore:
  assumes "session_consistent m"
    and "SourceMeter_from_dict (SourceMeter_to_dict m) m0 = Returned m1"
    and "SourceMeter_reset m1 = Returned m2"
  shows "measured_value m2 = 0 \<and> prev_measured_value m2 = measured_value m1"
proof -
  from assms(1,2) have "session_consistent m1"
    by (rule session_consistent_restore)
  with SourceMeter_reset_exact [OF assms(3)] show ?thesis
    by simp
qed

end
